theory Spec2Isabelle
  imports Complex_Main
begin

section \<open>Data model\<close>

text \<open>
  The simulator's \<^verbatim>\<open>number\<close> values are modelled as mathematical reals: the
  arithmetic of the source is read exactly, without IEEE rounding, NaN or infinities.
  The statements below are the formulas and comparisons the source computes, read in
  exact arithmetic; a property that holds only because an addition is exact, such as a
  strict change of a value by an arbitrarily small increment, is not stated here.
  HOL's total division differs from the source at a zero divisor; the statement that
  depends on it carries the hypothesis of a positive steering lock.

  The interfaces of \<^verbatim>\<open>types.ts\<close> become records. \<^verbatim>\<open>Wall\<close> and
  \<^verbatim>\<open>ParkingSpot\<close> have the same four fields and are passed to the same
  containment test, so they share one record.
\<close>

record Point =
  p_x :: real
  p_y :: real

record Size =
  width :: real
  height :: real

record CarState =
  car_x :: real
  car_y :: real
  rotation :: real
  steeringAngle :: real
  speed :: real

record Rect =
  r_x :: real
  r_y :: real
  r_width :: real
  r_height :: real

type_synonym Wall = Rect
type_synonym ParkingSpot = Rect

section \<open>Kinematic integrator\<close>

text \<open>
  \<^verbatim>\<open>updateCarPhysics(state, dt, wheelBase)\<close>: the early return for a negligible
  speed, then the heading update and the translation along the new heading. The object
  spread \<^verbatim>\<open>{...state, x, y, rotation}\<close> is a record update.
\<close>

definition updateCarPhysics :: "CarState \<Rightarrow> real \<Rightarrow> real \<Rightarrow> CarState" where
  "updateCarPhysics state dt wheelBase =
     (let L = wheelBase in
      if \<bar>speed state\<bar> < 0.01 then state
      else
        let dist = speed state * dt * 30;
            beta = dist / L * tan (steeringAngle state);
            newRotation = rotation state + beta;
            newX = car_x state + dist * cos newRotation;
            newY = car_y state + dist * sin newRotation
        in state\<lparr>car_x := newX, car_y := newY, rotation := newRotation\<rparr>)"

text \<open>\<^verbatim>\<open>INITIAL_CAR_STATE\<close> and \<^verbatim>\<open>DEFAULT_WHEEL_BASE\<close> of the source.\<close>

definition INITIAL_CAR_STATE :: CarState where
  "INITIAL_CAR_STATE =
     \<lparr>car_x = 200, car_y = 350, rotation = 0, steeringAngle = 0, speed = 0\<rparr>"

definition DEFAULT_WHEEL_BASE :: real where
  "DEFAULT_WHEEL_BASE = 26"

definition MAX_STEERING_ANGLE :: real where
  "MAX_STEERING_ANGLE = pi / 4"

text \<open>
  A test state: at the origin, facing east, full right lock, unit forward speed. With
  wheel base 2 and time step \<open>\<pi>/30\<close> one tick turns it by a quarter turn.
\<close>

definition quarterTurnState :: CarState where
  "quarterTurnState =
     \<lparr>car_x = 0, car_y = 0, rotation = 0, steeringAngle = pi / 4, speed = 1\<rparr>"

section \<open>Geometry kernel\<close>

text \<open>
  \<^verbatim>\<open>getCarCorners(state, size)\<close>: the four corners of the local rectangle, in the
  source's order (bottom right, bottom left, top left, top right), rotated by the
  heading and translated to the car's centre.
\<close>

definition getCarCorners :: "CarState \<Rightarrow> Size \<Rightarrow> Point list" where
  "getCarCorners state carSize =
     (let hw = width carSize / 2;
          hh = height carSize / 2;
          corners = [\<lparr>p_x = hw, p_y = hh\<rparr>, \<lparr>p_x = - hw, p_y = hh\<rparr>,
                     \<lparr>p_x = - hw, p_y = - hh\<rparr>, \<lparr>p_x = hw, p_y = - hh\<rparr>];
          cosR = cos (rotation state);
          sinR = sin (rotation state)
      in map (\<lambda>p. \<lparr>p_x = car_x state + (p_x p * cosR - p_y p * sinR),
                     p_y = car_y state + (p_x p * sinR + p_y p * cosR)\<rparr>) corners)"

text \<open>\<^verbatim>\<open>isPointInRect(p, rect)\<close>: the four comparisons of the source.\<close>

definition isPointInRect :: "Point \<Rightarrow> Rect \<Rightarrow> bool" where
  "isPointInRect p rect =
     (p_x p \<ge> r_x rect \<and> p_x p \<le> r_x rect + r_width rect \<and>
      p_y p \<ge> r_y rect \<and> p_y p \<le> r_y rect + r_height rect)"

section \<open>Collision detector\<close>

text \<open>
  \<^verbatim>\<open>checkCollision\<close> is two nested \<^verbatim>\<open>for ... of\<close> loops with a
  \<^verbatim>\<open>return true\<close> inside: \<open>wallLoop\<close> is the inner loop over the walls for one
  corner, \<open>cornerLoop\<close> the outer loop over the corners. Each returns at the first hit
  and yields \<open>False\<close> when its list is exhausted.
\<close>

fun wallLoop :: "Point \<Rightarrow> Wall list \<Rightarrow> bool" where
  "wallLoop corner [] = False"
| "wallLoop corner (wall # walls) =
     (if isPointInRect corner wall then True else wallLoop corner walls)"

fun cornerLoop :: "Point list \<Rightarrow> Wall list \<Rightarrow> bool" where
  "cornerLoop [] walls = False"
| "cornerLoop (corner # corners) walls =
     (if wallLoop corner walls then True else cornerLoop corners walls)"

definition checkCollision :: "CarState \<Rightarrow> Size \<Rightarrow> Wall list \<Rightarrow> bool" where
  "checkCollision carState carSize walls =
     (let corners = getCarCorners carState carSize in cornerLoop corners walls)"

section \<open>Parking judge\<close>

text \<open>
  The remainder operator \<^verbatim>\<open>a % b\<close> on numbers truncates the quotient towards zero,
  so the result has the sign of the dividend.
\<close>

definition js_rem :: "real \<Rightarrow> real \<Rightarrow> real" where
  "js_rem a b = a - b * of_int (if 0 \<le> a / b then \<lfloor>a / b\<rfloor> else \<lceil>a / b\<rceil>)"

text \<open>
  \<^verbatim>\<open>checkSuccess\<close>: \<^verbatim>\<open>corners.every(...)\<close> is \<open>list_all\<close>; the early
  \<^verbatim>\<open>return false\<close>, the normalisation of the angle and the two-sided comparison
  follow the source line by line.
\<close>

definition checkSuccess :: "CarState \<Rightarrow> Size \<Rightarrow> ParkingSpot \<Rightarrow> bool" where
  "checkSuccess carState carSize parkingSpot =
     (let corners = getCarCorners carState carSize;
          isInside = list_all (\<lambda>c. isPointInRect c parkingSpot) corners
      in if \<not> isInside then False
         else
           let angle0 = js_rem (rotation carState) (2 * pi);
               angle = (if angle0 < 0 then angle0 + 2 * pi else angle0);
               targetAngle = 1.5 * pi;
               angleDiff = \<bar>angle - targetAngle\<bar>;
               isAligned = (angleDiff < 0.2 \<or> \<bar>angleDiff - 2 * pi\<bar> < 0.2)
           in isAligned)"

text \<open>
  The wording of the specification for the alignment gate, to compare with the code:
  \<open>normalizeHeading\<close> is the representative of a heading in \<open>[0, 2\<pi>)\<close>, and
  \<open>shortWayDistance\<close> the angular distance of two such representatives measured the
  short way around the circle.
\<close>

definition normalizeHeading :: "real \<Rightarrow> real" where
  "normalizeHeading h = h - 2 * pi * of_int \<lfloor>h / (2 * pi)\<rfloor>"

definition shortWayDistance :: "real \<Rightarrow> real \<Rightarrow> real" where
  "shortWayDistance a b = min \<bar>a - b\<bar> (2 * pi - \<bar>a - b\<bar>)"

text \<open>
  The environment of the source for a spot of width 65 (\<^verbatim>\<open>getEnvironment(65)\<close>):
  the spot is centred in the 800 wide world and starts at the row line \<open>y = 50\<close>.
\<close>

definition getEnvironment_parkingSpot :: "real \<Rightarrow> ParkingSpot" where
  "getEnvironment_parkingSpot spotWidth =
     (let spotHeight = 100; rowStartY = 50; spotCenterX = 800 / 2
      in \<lparr>r_x = spotCenterX - spotWidth / 2, r_y = rowStartY,
          r_width = spotWidth, r_height = spotHeight\<rparr>)"

definition DEFAULT_CAR_SIZE :: Size where
  "DEFAULT_CAR_SIZE = \<lparr>width = 40, height = 22\<rparr>"

section \<open>Predictive path generator\<close>

text \<open>
  \<^verbatim>\<open>getPredictivePath(state, wheelBase, directionSign, steps = 30)\<close>. The step count
  is a natural number. \<open>pathLoop\<close> is the \<^verbatim>\<open>for (let i = 0; i < steps; i++)\<close> loop:
  its arguments are the loop counter, the bound, the loop variable \<^verbatim>\<open>tempState\<close>
  and the array \<^verbatim>\<open>path\<close>, to which each round pushes one point. The source works
  on a fresh object \<^verbatim>\<open>{...state, speed: simSpeed}\<close> and never assigns to a field
  of \<^verbatim>\<open>state\<close>; in the model the argument is a value and cannot change.
\<close>

function pathLoop :: "nat \<Rightarrow> nat \<Rightarrow> CarState \<Rightarrow> real \<Rightarrow> Point list \<Rightarrow> Point list" where
  "pathLoop i steps tempState wheelBase path =
     (if i < steps then
        let tempState' = updateCarPhysics tempState 0.5 wheelBase
        in pathLoop (i + 1) steps tempState' wheelBase
             (path @ [\<lparr>p_x = car_x tempState', p_y = car_y tempState'\<rparr>])
      else path)"
  by pat_completeness auto
termination
  by (relation "measure (\<lambda>(i, steps, tempState, wheelBase, path). steps - i)") auto

declare pathLoop.simps [simp del]

definition getPredictivePath :: "CarState \<Rightarrow> real \<Rightarrow> real \<Rightarrow> nat \<Rightarrow> Point list" where
  "getPredictivePath state wheelBase directionSign steps =
     (let path = [];
          simSpeed = (if \<bar>speed state\<bar> > 0.1 then speed state else directionSign * 1.5);
          tempState = state\<lparr>speed := simSpeed\<rparr>
      in pathLoop 0 steps tempState wheelBase path)"

text \<open>The call without the last argument takes the default \<^verbatim>\<open>steps = 30\<close>.\<close>

definition getPredictivePath_default :: "CarState \<Rightarrow> real \<Rightarrow> real \<Rightarrow> Point list" where
  "getPredictivePath_default state wheelBase directionSign =
     getPredictivePath state wheelBase directionSign 30"

text \<open>
  The wording of the claim, to compare with the loop: the speed the preview runs at, one
  preview tick, and the position of a state.
\<close>

definition previewSpeed :: "CarState \<Rightarrow> real \<Rightarrow> real" where
  "previewSpeed state directionSign =
     (if \<bar>speed state\<bar> > 0.1 then speed state else directionSign * 1.5)"

definition previewTick :: "real \<Rightarrow> CarState \<Rightarrow> CarState" where
  "previewTick wheelBase tempState = updateCarPhysics tempState 0.5 wheelBase"

definition position :: "CarState \<Rightarrow> Point" where
  "position state = \<lparr>p_x = car_x state, p_y = car_y state\<rparr>"

section \<open>Telemetry for the advice service\<close>

text \<open>
  \<^verbatim>\<open>getDrivingAdvice\<close> formats four numbers into its prompt with
  \<^verbatim>\<open>toFixed\<close>. \<open>toFixed digits v\<close> is the number the string
  \<^verbatim>\<open>v.toFixed(digits)\<close> denotes: the sign is split off and the magnitude is
  rounded to the nearest multiple of \<open>10\<^sup>-\<^sup>d\<^sup>i\<^sup>g\<^sup>i\<^sup>t\<^sup>s\<close>, the larger one on a tie.
  \<open>toFixed0\<close> is the case of no fraction digits, as an integer.
\<close>

definition toFixed :: "nat \<Rightarrow> real \<Rightarrow> real" where
  "toFixed digits v =
     (if v < 0 then - (of_int \<lfloor>- v * 10 ^ digits + 1 / 2\<rfloor> / 10 ^ digits)
      else of_int \<lfloor>v * 10 ^ digits + 1 / 2\<rfloor> / 10 ^ digits)"

definition toFixed0 :: "real \<Rightarrow> int" where
  "toFixed0 v = (if v < 0 then - \<lfloor>- v + 1 / 2\<rfloor> else \<lfloor>v + 1 / 2\<rfloor>)"

datatype GameStatus = PLAYING | CRASHED | PARKED

record Telemetry =
  relX :: real
  relY :: real
  angleDeg :: int
  steeringDeg :: int
  promptContext :: string
  lastActionText :: string

text \<open>
  The data block \<^verbatim>\<open>getDrivingAdvice\<close> builds before it calls the service: the
  values interpolated into the system instruction.
\<close>

definition adviceTelemetry :: "CarState \<Rightarrow> ParkingSpot \<Rightarrow> GameStatus \<Rightarrow> string \<Rightarrow> Telemetry" where
  "adviceTelemetry carState parkingSpot status lastAction =
     \<lparr>relX = toFixed 1 (car_x carState - r_x parkingSpot),
      relY = toFixed 1 (car_y carState - r_y parkingSpot),
      angleDeg = toFixed0 (rotation carState * (180 / pi)),
      steeringDeg = toFixed0 (steeringAngle carState * (180 / pi)),
      promptContext =
        (if status = CRASHED then ''The user just crashed their car.''
         else if status = PARKED then ''The user successfully parked!''
         else ''The user is currently trying to park.''),
      lastActionText = lastAction\<rparr>"

section \<open>Steering mapper\<close>

text \<open>
  The \<^verbatim>\<open>SteeringWheel\<close> component. Its props \<^verbatim>\<open>angle\<close> and
  \<^verbatim>\<open>maxAngle\<close>, its state \<^verbatim>\<open>isDragging\<close> and its two refs make up the
  record; \<^verbatim>\<open>wheelRef.current\<close> is the bounding rectangle of the mounted element,
  or nothing. The value passed to \<^verbatim>\<open>onChange\<close> is returned as an option:
  \<open>None\<close> where a handler returns without emitting.
\<close>

record DOMRect =
  rect_left :: real
  rect_top :: real
  rect_width :: real
  rect_height :: real

record SteeringWheel =
  angle :: real
  maxAngle :: real
  isDragging :: bool
  wheelRef :: "DOMRect option"
  startAngleRef :: real

text \<open>\<^verbatim>\<open>Math.atan2(y, x)\<close>, by quadrant, in terms of \<open>arctan\<close>.\<close>

definition atan2 :: "real \<Rightarrow> real \<Rightarrow> real" where
  "atan2 y x =
     (if 0 < x then arctan (y / x)
      else if x < 0 then (if 0 \<le> y then arctan (y / x) + pi else arctan (y / x) - pi)
      else if 0 < y then pi / 2
      else if y < 0 then - (pi / 2)
      else 0)"

definition MAX_TURNS :: real where
  "MAX_TURNS = 1.5"

definition MAX_VISUAL_DEG :: real where
  "MAX_VISUAL_DEG = MAX_TURNS * 360"

definition currentVisualRotation :: "SteeringWheel \<Rightarrow> real" where
  "currentVisualRotation w =
     (let currentPhysicsDeg = (angle w * 180) / pi;
          maxPhysicsDeg = (maxAngle w * 180) / pi
      in (currentPhysicsDeg / maxPhysicsDeg) * MAX_VISUAL_DEG)"

definition pointerAngle :: "DOMRect \<Rightarrow> real \<Rightarrow> real \<Rightarrow> real" where
  "pointerAngle rect clientX clientY =
     (let centerX = rect_left rect + rect_width rect / 2;
          centerY = rect_top rect + rect_height rect / 2
      in atan2 (clientY - centerY) (clientX - centerX) * (180 / pi))"

definition handleStart :: "SteeringWheel \<Rightarrow> real \<Rightarrow> real \<Rightarrow> SteeringWheel" where
  "handleStart w clientX clientY =
     (case wheelRef w of
        None \<Rightarrow> w
      | Some rect \<Rightarrow>
          w\<lparr>isDragging := True, startAngleRef := pointerAngle rect clientX clientY\<rparr>)"

definition handleMove :: "SteeringWheel \<Rightarrow> real \<Rightarrow> real \<Rightarrow> SteeringWheel \<times> real option" where
  "handleMove w clientX clientY =
     (case wheelRef w of
        None \<Rightarrow> (w, None)
      | Some rect \<Rightarrow>
          if \<not> isDragging w then (w, None)
          else
            let currentMouseAngle = pointerAngle rect clientX clientY;
                delta0 = currentMouseAngle - startAngleRef w;
                delta1 = (if delta0 > 180 then delta0 - 360 else delta0);
                delta = (if delta1 < - 180 then delta1 + 360 else delta1);
                newVisual0 = currentVisualRotation w + delta;
                newVisual = max (- MAX_VISUAL_DEG) (min MAX_VISUAL_DEG newVisual0);
                newPhysics = (newVisual / MAX_VISUAL_DEG) * maxAngle w
            in (w\<lparr>startAngleRef := currentMouseAngle\<rparr>, Some newPhysics))"

definition handleEnd :: "SteeringWheel \<Rightarrow> SteeringWheel" where
  "handleEnd w = w\<lparr>isDragging := False\<rparr>"

definition setTurns :: "SteeringWheel \<Rightarrow> real \<Rightarrow> real" where
  "setTurns w t =
     (let newVisual = t * 360;
          clamped = max (- MAX_VISUAL_DEG) (min MAX_VISUAL_DEG newVisual);
          newPhysics = (clamped / MAX_VISUAL_DEG) * maxAngle w
      in newPhysics)"

text \<open>
  The events the component reacts to, and one reaction. An emitted angle goes to the
  parent's \<^verbatim>\<open>handleSteeringChange\<close>, which stores it as the car's steering angle
  while the game is being played and drops it otherwise; the stored angle comes back as
  the prop \<^verbatim>\<open>angle\<close>. \<open>emitted\<close> lists the angles a sequence of events emits.
\<close>

datatype WheelEvent =
  PointerDown real real
  | PointerMove real real
  | PointerUp
  | QuickSet real

fun dispatch :: "SteeringWheel \<Rightarrow> WheelEvent \<Rightarrow> SteeringWheel \<times> real option" where
  "dispatch w (PointerDown clientX clientY) = (handleStart w clientX clientY, None)"
| "dispatch w (PointerMove clientX clientY) = handleMove w clientX clientY"
| "dispatch w PointerUp = (handleEnd w, None)"
| "dispatch w (QuickSet t) = (w, Some (setTurns w t))"

definition handleSteeringChange :: "bool \<Rightarrow> SteeringWheel \<Rightarrow> real option \<Rightarrow> SteeringWheel" where
  "handleSteeringChange playing w out =
     (case out of
        None \<Rightarrow> w
      | Some newAngle \<Rightarrow> if \<not> playing then w else w\<lparr>angle := newAngle\<rparr>)"

fun emitted :: "bool \<Rightarrow> SteeringWheel \<Rightarrow> WheelEvent list \<Rightarrow> real list" where
  "emitted playing w [] = []"
| "emitted playing w (ev # evs) =
     (case dispatch w ev of
        (w', None) \<Rightarrow> emitted playing (handleSteeringChange playing w' None) evs
      | (w', Some a) \<Rightarrow> a # emitted playing (handleSteeringChange playing w' (Some a)) evs)"

text \<open>
  A mounted wheel with the source's steering lock, centred at \<open>(50, 50)\<close>, and a gesture:
  press at the right of the hub, drag clockwise through seven quarter turns (630 degrees
  of raw rotation), release, then the quick action for full left.
\<close>

definition demoWheel :: SteeringWheel where
  "demoWheel =
     \<lparr>angle = 0, maxAngle = MAX_STEERING_ANGLE, isDragging = False,
      wheelRef = Some \<lparr>rect_left = 0, rect_top = 0, rect_width = 100, rect_height = 100\<rparr>,
      startAngleRef = 0\<rparr>"

definition demoGesture :: "WheelEvent list" where
  "demoGesture =
     [PointerDown 100 50,
      PointerMove 50 100, PointerMove 0 50, PointerMove 50 0, PointerMove 100 50,
      PointerMove 50 100, PointerMove 0 50, PointerMove 50 0,
      PointerUp, QuickSet (- MAX_TURNS)]"

section \<open>Properties of the integrator\<close>

text \<open>
  C1. When the speed magnitude is at least the rest threshold 0.01, the returned state
  has heading \<open>rotation + (speed * dt * 30 / wheelBase) * tan steeringAngle\<close>, and its
  position is the old position advanced by \<open>speed * dt * 30\<close> along that new heading
  (not along the old one), for every time step and wheel base.
\<close>

theorem updateCarPhysics_moving:
  assumes "\<bar>speed state\<bar> \<ge> 0.01"
  shows "rotation (updateCarPhysics state dt wheelBase) =
           rotation state + (speed state * dt * 30 / wheelBase) * tan (steeringAngle state)
       \<and> car_x (updateCarPhysics state dt wheelBase) =
           car_x state + speed state * dt * 30 *
             cos (rotation (updateCarPhysics state dt wheelBase))
       \<and> car_y (updateCarPhysics state dt wheelBase) =
           car_y state + speed state * dt * 30 *
             sin (rotation (updateCarPhysics state dt wheelBase))"
  using assms by (simp add: updateCarPhysics_def Let_def)

theorem updateCarPhysics_moving_witness:
  "\<bar>speed quarterTurnState\<bar> \<ge> 0.01
   \<and> rotation (updateCarPhysics quarterTurnState (pi / 30) 2) = pi / 2
   \<and> car_x (updateCarPhysics quarterTurnState (pi / 30) 2) = 0
   \<and> car_y (updateCarPhysics quarterTurnState (pi / 30) 2) = pi"
proof -
  have moving: "\<bar>speed quarterTurnState\<bar> \<ge> 0.01"
    by (simp add: quarterTurnState_def)
  note step = updateCarPhysics_moving [OF moving, of "pi / 30" 2]
  have heading: "rotation (updateCarPhysics quarterTurnState (pi / 30) 2) = pi / 2"
    using step by (simp add: quarterTurnState_def tan_45)
  from step have "car_x (updateCarPhysics quarterTurnState (pi / 30) 2) = 0"
    unfolding heading by (simp add: quarterTurnState_def)
  moreover from step have "car_y (updateCarPhysics quarterTurnState (pi / 30) 2) = pi"
    unfolding heading by (simp add: quarterTurnState_def)
  ultimately show ?thesis using moving heading by simp
qed

text \<open>
  C5. Below the rest threshold the integrator returns its input: no field changes,
  whatever the steering angle, the time step and the wheel base.
\<close>

theorem updateCarPhysics_at_rest:
  assumes "\<bar>speed state\<bar> < 0.01"
  shows "updateCarPhysics state dt wheelBase = state"
  using assms by (simp add: updateCarPhysics_def)

theorem updateCarPhysics_at_rest_witness:
  "\<bar>speed (INITIAL_CAR_STATE\<lparr>steeringAngle := pi / 4\<rparr>)\<bar> < 0.01
   \<and> updateCarPhysics (INITIAL_CAR_STATE\<lparr>steeringAngle := pi / 4\<rparr>) 5 26 =
       \<lparr>car_x = 200, car_y = 350, rotation = 0, steeringAngle = pi / 4, speed = 0\<rparr>"
proof -
  have resting: "\<bar>speed (INITIAL_CAR_STATE\<lparr>steeringAngle := pi / 4\<rparr>)\<bar> < 0.01"
    by (simp add: INITIAL_CAR_STATE_def)
  from updateCarPhysics_at_rest [OF resting, of 5 26] resting
  show ?thesis by (simp add: INITIAL_CAR_STATE_def)
qed

text \<open>
  C10. The integrator never changes the speed or the steering angle: whatever the
  state, time step and wheel base, both fields of the result equal those of the input.
\<close>

theorem updateCarPhysics_frame:
  "speed (updateCarPhysics state dt wheelBase) = speed state
   \<and> steeringAngle (updateCarPhysics state dt wheelBase) = steeringAngle state"
  by (simp add: updateCarPhysics_def Let_def)

section \<open>Properties of the collision detector\<close>

lemma wallLoop_iff: "wallLoop corner walls \<longleftrightarrow> (\<exists>w \<in> set walls. isPointInRect corner w)"
  by (induction walls) auto

lemma cornerLoop_iff:
  "cornerLoop corners walls \<longleftrightarrow> (\<exists>c \<in> set corners. \<exists>w \<in> set walls. isPointInRect c w)"
  by (induction corners) (auto simp: wallLoop_iff)

text \<open>
  C3. \<open>checkCollision\<close> is true exactly when some corner of \<open>getCarCorners\<close> lies in
  some obstacle rectangle, with closed bounds on both axes. Nothing but the corners
  enters the result: no edge or body overlap is tested.
\<close>

theorem checkCollision_corner_only:
  "checkCollision carState carSize walls \<longleftrightarrow>
     (\<exists>c \<in> set (getCarCorners carState carSize). \<exists>w \<in> set walls.
        r_x w \<le> p_x c \<and> p_x c \<le> r_x w + r_width w \<and>
        r_y w \<le> p_y c \<and> p_y c \<le> r_y w + r_height w)"
  by (simp add: checkCollision_def cornerLoop_iff isPointInRect_def)

text \<open>
  Two runs of the detector with the default car at heading 0. A thin wall through the
  middle of the body holds no corner and is missed; the curb \<open>y \<le> 50\<close> is hit, on its
  closed boundary, by the corners at \<open>y = 50\<close> of a car centred at \<open>y = 61\<close>.
\<close>

theorem checkCollision_corner_only_witness:
  "\<not> checkCollision \<lparr>car_x = 400, car_y = 300, rotation = 0, steeringAngle = 0, speed = 0\<rparr>
        DEFAULT_CAR_SIZE [\<lparr>r_x = 399, r_y = 200, r_width = 2, r_height = 200\<rparr>]
   \<and> checkCollision \<lparr>car_x = 400, car_y = 61, rotation = 0, steeringAngle = 0, speed = 0\<rparr>
        DEFAULT_CAR_SIZE [\<lparr>r_x = 0, r_y = 0, r_width = 800, r_height = 50\<rparr>]"
proof -
  have "\<not> checkCollision \<lparr>car_x = 400, car_y = 300, rotation = 0, steeringAngle = 0, speed = 0\<rparr>
        DEFAULT_CAR_SIZE [\<lparr>r_x = 399, r_y = 200, r_width = 2, r_height = 200\<rparr>]"
    unfolding checkCollision_corner_only
    by (simp add: getCarCorners_def DEFAULT_CAR_SIZE_def)
  moreover
  have "checkCollision \<lparr>car_x = 400, car_y = 61, rotation = 0, steeringAngle = 0, speed = 0\<rparr>
        DEFAULT_CAR_SIZE [\<lparr>r_x = 0, r_y = 0, r_width = 800, r_height = 50\<rparr>]"
    unfolding checkCollision_corner_only
    by (simp add: getCarCorners_def DEFAULT_CAR_SIZE_def)
  ultimately show ?thesis by simp
qed

section \<open>Properties of the parking judge\<close>

text \<open>
  The angle the code computes with the remainder and the conditional shift is the
  representative of the heading in \<open>[0, 2\<pi>)\<close>, and on that range the code's two-sided
  comparison is the short-way distance to \<open>1.5\<pi>\<close> being below 0.2.
\<close>

lemma normalizeHeading_range: "0 \<le> normalizeHeading h \<and> normalizeHeading h < 2 * pi"
proof -
  let ?q = "h / (2 * pi)"
  have pos: "0 < 2 * pi" by simp
  have h: "h = 2 * pi * ?q" by simp
  have "of_int \<lfloor>?q\<rfloor> \<le> ?q" by simp
  then have "2 * pi * of_int \<lfloor>?q\<rfloor> \<le> 2 * pi * ?q"
    using pos by (simp only: mult_le_cancel_left_pos)
  then have lo: "2 * pi * of_int \<lfloor>?q\<rfloor> \<le> h" using h by simp
  have "?q < of_int \<lfloor>?q\<rfloor> + 1" by linarith
  then have "2 * pi * ?q < 2 * pi * (of_int \<lfloor>?q\<rfloor> + 1)"
    using pos by (simp only: mult_less_cancel_left_pos)
  then have hi: "h < 2 * pi * of_int \<lfloor>?q\<rfloor> + 2 * pi" using h by (simp add: algebra_simps)
  show ?thesis using lo hi by (simp add: normalizeHeading_def)
qed

lemma code_normalisation:
  "(let angle0 = js_rem h (2 * pi) in if angle0 < 0 then angle0 + 2 * pi else angle0)
     = normalizeHeading h"
proof -
  let ?q = "h / (2 * pi)"
  note rng = normalizeHeading_range [of h]
  show ?thesis
  proof (cases "0 \<le> ?q")
    case True
    then have "js_rem h (2 * pi) = normalizeHeading h"
      by (simp add: js_rem_def normalizeHeading_def)
    then show ?thesis using rng by (simp add: Let_def)
  next
    case False
    show ?thesis
    proof (cases "?q \<in> \<int>")
      case True
      then have "\<lceil>?q\<rceil> = \<lfloor>?q\<rfloor>" by (metis Ints_cases ceiling_of_int floor_of_int)
      then have "js_rem h (2 * pi) = normalizeHeading h"
        using False by (simp add: js_rem_def normalizeHeading_def)
      then show ?thesis using rng by (simp add: Let_def)
    next
      case notint: False
      then have "?q \<noteq> of_int \<lfloor>?q\<rfloor>" by (metis Ints_of_int)
      then have "\<lceil>?q\<rceil> = \<lfloor>?q\<rfloor> + 1" by (simp add: ceiling_altdef)
      then have "js_rem h (2 * pi) = normalizeHeading h - 2 * pi"
        using False by (simp add: js_rem_def normalizeHeading_def algebra_simps)
      then show ?thesis using rng by (simp add: Let_def)
    qed
  qed
qed

lemma aligned_iff:
  assumes "0 \<le> a" "a < 2 * pi"
  shows "(\<bar>a - 1.5 * pi\<bar> < 0.2 \<or> \<bar>\<bar>a - 1.5 * pi\<bar> - 2 * pi\<bar> < 0.2)
         \<longleftrightarrow> shortWayDistance a (1.5 * pi) < 0.2"
proof -
  have "2 \<le> pi" by (rule pi_ge_two)
  then show ?thesis using assms unfolding shortWayDistance_def by (auto simp: min_def abs_if split: if_splits)
qed

lemma checkSuccess_unfolded:
  "checkSuccess carState carSize parkingSpot \<longleftrightarrow>
     list_all (\<lambda>c. isPointInRect c parkingSpot) (getCarCorners carState carSize)
     \<and> shortWayDistance (normalizeHeading (rotation carState)) (1.5 * pi) < 0.2"
proof -
  have "checkSuccess carState carSize parkingSpot \<longleftrightarrow>
     list_all (\<lambda>c. isPointInRect c parkingSpot) (getCarCorners carState carSize)
     \<and> (let angle = (let angle0 = js_rem (rotation carState) (2 * pi)
                      in if angle0 < 0 then angle0 + 2 * pi else angle0)
        in \<bar>angle - 1.5 * pi\<bar> < 0.2 \<or> \<bar>\<bar>angle - 1.5 * pi\<bar> - 2 * pi\<bar> < 0.2)"
    by (simp add: checkSuccess_def Let_def)
  also have "\<dots> \<longleftrightarrow>
     list_all (\<lambda>c. isPointInRect c parkingSpot) (getCarCorners carState carSize)
     \<and> (\<bar>normalizeHeading (rotation carState) - 1.5 * pi\<bar> < 0.2
        \<or> \<bar>\<bar>normalizeHeading (rotation carState) - 1.5 * pi\<bar> - 2 * pi\<bar> < 0.2)"
    unfolding code_normalisation by (simp add: Let_def)
  also have "\<dots> \<longleftrightarrow>
     list_all (\<lambda>c. isPointInRect c parkingSpot) (getCarCorners carState carSize)
     \<and> shortWayDistance (normalizeHeading (rotation carState)) (1.5 * pi) < 0.2"
    using aligned_iff [of "normalizeHeading (rotation carState)"]
      normalizeHeading_range [of "rotation carState"] by simp
  finally show ?thesis .
qed

lemma sideways_not_aligned: "\<not> shortWayDistance 0 (1.5 * pi) < 0.2"
proof -
  have "2 \<le> pi" by (rule pi_ge_two)
  then show ?thesis by (simp add: shortWayDistance_def min_def abs_if)
qed

text \<open>
  C2. \<open>checkSuccess\<close> is true exactly when both gates hold: every one of the four
  corners of \<open>getCarCorners\<close> lies in the spot rectangle under inclusive bounds, and the
  heading normalised into \<open>[0, 2\<pi>)\<close> is less than 0.2 rad away from \<open>1.5\<pi>\<close> the short
  way around the circle. In particular a state whose normalised heading is 0 is never
  judged parked, contained or not.
\<close>

theorem checkSuccess_two_gates:
  "length (getCarCorners carState carSize) = 4
   \<and> (checkSuccess carState carSize parkingSpot \<longleftrightarrow>
        (\<forall>c \<in> set (getCarCorners carState carSize).
            r_x parkingSpot \<le> p_x c \<and> p_x c \<le> r_x parkingSpot + r_width parkingSpot \<and>
            r_y parkingSpot \<le> p_y c \<and> p_y c \<le> r_y parkingSpot + r_height parkingSpot)
        \<and> 0 \<le> normalizeHeading (rotation carState)
        \<and> normalizeHeading (rotation carState) < 2 * pi
        \<and> shortWayDistance (normalizeHeading (rotation carState)) (1.5 * pi) < 0.2)
   \<and> (normalizeHeading (rotation carState) = 0 \<longrightarrow>
        \<not> checkSuccess carState carSize parkingSpot)"
proof -
  have four: "length (getCarCorners carState carSize) = 4"
    by (simp add: getCarCorners_def Let_def)
  have gates: "checkSuccess carState carSize parkingSpot \<longleftrightarrow>
        (\<forall>c \<in> set (getCarCorners carState carSize).
            r_x parkingSpot \<le> p_x c \<and> p_x c \<le> r_x parkingSpot + r_width parkingSpot \<and>
            r_y parkingSpot \<le> p_y c \<and> p_y c \<le> r_y parkingSpot + r_height parkingSpot)
        \<and> 0 \<le> normalizeHeading (rotation carState)
        \<and> normalizeHeading (rotation carState) < 2 * pi
        \<and> shortWayDistance (normalizeHeading (rotation carState)) (1.5 * pi) < 0.2"
    using normalizeHeading_range [of "rotation carState"]
    by (simp add: checkSuccess_unfolded list_all_iff isPointInRect_def)
  have sideways: "normalizeHeading (rotation carState) = 0 \<longrightarrow>
        \<not> checkSuccess carState carSize parkingSpot"
    using sideways_not_aligned by (simp add: checkSuccess_unfolded)
  show ?thesis using four gates sideways by blast
qed

text \<open>
  The default car in the source's spot of width 65, centred at \<open>(400, 100)\<close>: nose up
  (heading \<open>1.5\<pi>\<close>) it is parked; with the same centre and heading 0 all four corners
  are still inside the spot, and it is not parked.
\<close>

lemma cos_270: "cos (3 * pi / 2) = 0" using cos_3over2_pi by simp
lemma sin_270: "sin (3 * pi / 2) = - 1" using sin_3over2_pi by simp

theorem checkSuccess_two_gates_witness:
  "checkSuccess \<lparr>car_x = 400, car_y = 100, rotation = 3 / 2 * pi, steeringAngle = 0, speed = 0\<rparr>
      DEFAULT_CAR_SIZE (getEnvironment_parkingSpot 65)
   \<and> list_all (\<lambda>c. isPointInRect c (getEnvironment_parkingSpot 65))
        (getCarCorners \<lparr>car_x = 400, car_y = 100, rotation = 0, steeringAngle = 0, speed = 0\<rparr>
           DEFAULT_CAR_SIZE)
   \<and> \<not> checkSuccess \<lparr>car_x = 400, car_y = 100, rotation = 0, steeringAngle = 0, speed = 0\<rparr>
      DEFAULT_CAR_SIZE (getEnvironment_parkingSpot 65)"
proof -
  let ?parked = "\<lparr>car_x = 400, car_y = 100, rotation = 3 / 2 * pi, steeringAngle = 0, speed = 0\<rparr>"
  let ?sideways = "\<lparr>car_x = 400, car_y = 100, rotation = 0, steeringAngle = 0, speed = 0\<rparr>"
  let ?spot = "getEnvironment_parkingSpot 65"
  note parked = checkSuccess_two_gates [of ?parked DEFAULT_CAR_SIZE ?spot]
  note sideways = checkSuccess_two_gates [of ?sideways DEFAULT_CAR_SIZE ?spot]
  have heading: "normalizeHeading (rotation ?parked) = 3 / 2 * pi"
    by (simp add: normalizeHeading_def)
  have near: "shortWayDistance (3 / 2 * pi) (1.5 * pi) < 0.2"
    by (simp add: shortWayDistance_def)
  have corners: "getCarCorners ?parked DEFAULT_CAR_SIZE =
      [\<lparr>p_x = 411, p_y = 80\<rparr>, \<lparr>p_x = 411, p_y = 120\<rparr>,
       \<lparr>p_x = 389, p_y = 120\<rparr>, \<lparr>p_x = 389, p_y = 80\<rparr>]"
    by (simp add: getCarCorners_def DEFAULT_CAR_SIZE_def cos_270 sin_270 Let_def)
  have a: "checkSuccess ?parked DEFAULT_CAR_SIZE ?spot"
    using parked unfolding heading corners
    using near by (simp add: getEnvironment_parkingSpot_def)
  have b: "list_all (\<lambda>c. isPointInRect c ?spot) (getCarCorners ?sideways DEFAULT_CAR_SIZE)"
    by (simp add: getCarCorners_def DEFAULT_CAR_SIZE_def isPointInRect_def
        getEnvironment_parkingSpot_def)
  have east: "normalizeHeading (rotation ?sideways) = 0"
    by (simp add: normalizeHeading_def)
  have c: "\<not> checkSuccess ?sideways DEFAULT_CAR_SIZE ?spot"
    using sideways east by blast
  show ?thesis using a b c by simp
qed

text \<open>
  C9. The judge does not read the speed: replacing the speed of a state by any two
  values gives the same verdict.
\<close>

theorem checkSuccess_speed_agnostic:
  "checkSuccess (carState\<lparr>speed := v1\<rparr>) carSize parkingSpot =
   checkSuccess (carState\<lparr>speed := v2\<rparr>) carSize parkingSpot"
  by (simp add: checkSuccess_def getCarCorners_def)

section \<open>Properties of the predictive path\<close>

lemma pathLoop_unfold:
  "pathLoop i steps tempState wheelBase path =
     path @ map (\<lambda>k. position ((previewTick wheelBase ^^ Suc k) tempState)) [0..<steps - i]"
proof (induction i steps tempState wheelBase path rule: pathLoop.induct)
  case (1 i steps tempState wheelBase path)
  show ?case
  proof (cases "i < steps")
    case True
    let ?next = "updateCarPhysics tempState 0.5 wheelBase"
    from True have cnt: "steps - i = Suc (steps - (i + 1))" by simp
    have shift: "map (\<lambda>k. position ((previewTick wheelBase ^^ Suc k) tempState)) [0..<Suc n] =
        position ?next # map (\<lambda>k. position ((previewTick wheelBase ^^ Suc k) ?next)) [0..<n]" for n
    proof -
      have "[0..<Suc n] = 0 # map Suc [0..<n]"
        by (simp add: upt_conv_Cons map_Suc_upt del: upt_Suc)
      then show ?thesis
        by (simp add: funpow_swap1 previewTick_def comp_def del: upt_Suc)
    qed
    have "pathLoop i steps tempState wheelBase path =
        pathLoop (i + 1) steps ?next wheelBase (path @ [position ?next])"
      using True by (subst pathLoop.simps) (simp add: Let_def position_def)
    also have "\<dots> = (path @ [position ?next]) @
        map (\<lambda>k. position ((previewTick wheelBase ^^ Suc k) ?next)) [0..<steps - (i + 1)]"
      using "1.IH" [OF True refl] by (simp add: position_def)
    also have "\<dots> = path @
        map (\<lambda>k. position ((previewTick wheelBase ^^ Suc k) tempState)) [0..<steps - i]"
      unfolding cnt shift by simp
    finally show ?thesis .
  next
    case False
    then show ?thesis by (subst pathLoop.simps) simp
  qed
qed

text \<open>
  C6. \<open>getPredictivePath\<close> returns exactly \<open>steps\<close> points (30 by default), whatever
  the state, wheel base and direction sign: the loop has no early exit. The k-th point is
  the position after k+1 integrator steps of 0.5 from the input state with its speed
  replaced by the preview speed: the actual speed when its magnitude exceeds 0.1, and
  \<open>directionSign * 1.5\<close> otherwise.
\<close>

theorem getPredictivePath_points:
  "length (getPredictivePath state wheelBase directionSign steps) = steps
   \<and> getPredictivePath state wheelBase directionSign steps =
       map (\<lambda>k. position ((previewTick wheelBase ^^ Suc k)
                  (state\<lparr>speed := previewSpeed state directionSign\<rparr>))) [0..<steps]
   \<and> length (getPredictivePath_default state wheelBase directionSign) = 30"
  by (simp add: getPredictivePath_def getPredictivePath_default_def pathLoop_unfold
      previewSpeed_def Let_def)

text \<open>
  Two previews from the initial state: in reverse gear at rest the nominal speed
  \<open>-1.5\<close> moves the car 22.5 units west per step; with direction sign 0 and a speed
  below both thresholds the simulated speed is 0, and there are still 7 points.
\<close>

theorem getPredictivePath_points_witness:
  "getPredictivePath INITIAL_CAR_STATE DEFAULT_WHEEL_BASE (- 1) 2 =
     [\<lparr>p_x = 177.5, p_y = 350\<rparr>, \<lparr>p_x = 155, p_y = 350\<rparr>]
   \<and> length (getPredictivePath (INITIAL_CAR_STATE\<lparr>speed := 0.05\<rparr>) 26 0 7) = 7"
proof -
  have two: "[0..<2] = [0, Suc 0]" by (simp add: upt_rec)
  have "getPredictivePath INITIAL_CAR_STATE DEFAULT_WHEEL_BASE (- 1) 2 =
     [\<lparr>p_x = 177.5, p_y = 350\<rparr>, \<lparr>p_x = 155, p_y = 350\<rparr>]"
    using getPredictivePath_points [of INITIAL_CAR_STATE DEFAULT_WHEEL_BASE "- 1" 2]
    by (simp add: two previewSpeed_def previewTick_def position_def INITIAL_CAR_STATE_def
        DEFAULT_WHEEL_BASE_def updateCarPhysics_def Let_def)
  moreover have "length (getPredictivePath (INITIAL_CAR_STATE\<lparr>speed := 0.05\<rparr>) 26 0 7) = 7"
    using getPredictivePath_points [of "INITIAL_CAR_STATE\<lparr>speed := 0.05\<rparr>" 26 0 7] by simp
  ultimately show ?thesis by simp
qed

section \<open>Properties of the telemetry\<close>

lemma toFixed0_near: "\<bar>real_of_int (toFixed0 v) - v\<bar> \<le> 1 / 2"
proof (cases "v < 0")
  case True
  have "real_of_int \<lfloor>- v + 1 / 2\<rfloor> \<le> - v + 1 / 2"
    and "- v + 1 / 2 < real_of_int \<lfloor>- v + 1 / 2\<rfloor> + 1"
    by linarith+
  then have "\<bar>- real_of_int \<lfloor>- v + 1 / 2\<rfloor> - v\<bar> \<le> 1 / 2" by linarith
  then show ?thesis using True by (simp only: toFixed0_def if_True of_int_minus)
next
  case False
  have "real_of_int \<lfloor>v + 1 / 2\<rfloor> \<le> v + 1 / 2"
    and "v + 1 / 2 < real_of_int \<lfloor>v + 1 / 2\<rfloor> + 1"
    by linarith+
  then have "\<bar>real_of_int \<lfloor>v + 1 / 2\<rfloor> - v\<bar> \<le> 1 / 2" by linarith
  then show ?thesis using False by (simp only: toFixed0_def if_False)
qed

lemma toFixed0_range:
  "(0 \<le> toFixed0 v \<and> toFixed0 v \<le> 359) \<longleftrightarrow> (- (1 / 2) < v \<and> v < 359 + 1 / 2)"
proof (cases "v < 0")
  case True
  have "(0 \<le> - \<lfloor>- v + 1 / 2\<rfloor> \<and> - \<lfloor>- v + 1 / 2\<rfloor> \<le> 359) \<longleftrightarrow> - (1 / 2) < v"
    using True by (simp add: floor_le_iff le_floor_iff) linarith
  then show ?thesis using True by (simp only: toFixed0_def if_True) linarith
next
  case False
  have "(0 \<le> \<lfloor>v + 1 / 2\<rfloor> \<and> \<lfloor>v + 1 / 2\<rfloor> \<le> 359) \<longleftrightarrow> v < 359 + 1 / 2"
    using False by (simp add: floor_le_iff le_floor_iff) linarith
  then show ?thesis using False by (simp only: toFixed0_def if_False) linarith
qed

lemma toFixed0_tie: "\<bar>real_of_int (toFixed0 v) - v\<bar> = 1 / 2 \<Longrightarrow> \<bar>v\<bar> < \<bar>real_of_int (toFixed0 v)\<bar>"
proof (cases "v < 0")
  case True
  assume tie: "\<bar>real_of_int (toFixed0 v) - v\<bar> = 1 / 2"
  have fl: "real_of_int \<lfloor>- v + 1 / 2\<rfloor> \<le> - v + 1 / 2"
    and fu: "- v + 1 / 2 < real_of_int \<lfloor>- v + 1 / 2\<rfloor> + 1"
    by linarith+
  have d: "real_of_int (toFixed0 v) = - real_of_int \<lfloor>- v + 1 / 2\<rfloor>"
    using True by (simp only: toFixed0_def if_True of_int_minus)
  show ?thesis using tie fl fu True unfolding d by linarith
next
  case False
  assume tie: "\<bar>real_of_int (toFixed0 v) - v\<bar> = 1 / 2"
  have fl: "real_of_int \<lfloor>v + 1 / 2\<rfloor> \<le> v + 1 / 2"
    and fu: "v + 1 / 2 < real_of_int \<lfloor>v + 1 / 2\<rfloor> + 1"
    by linarith+
  have d: "real_of_int (toFixed0 v) = real_of_int \<lfloor>v + 1 / 2\<rfloor>"
    using False by (simp only: toFixed0_def if_False)
  show ?thesis using tie fl fu False unfolding d by linarith
qed

lemma toFixed0_magnitude:
  "toFixed0 v = (if v < 0 then - \<lfloor>\<bar>v\<bar> + 1 / 2\<rfloor> else \<lfloor>\<bar>v\<bar> + 1 / 2\<rfloor>)"
  by (simp add: toFixed0_def abs_if)

text \<open>
  C7, as stated, fails: the heading is converted to degrees and rounded, and nothing
  reduces it modulo 360. At heading \<open>-\<pi>/2\<close> (nose up, as after a quarter turn in
  reverse with right lock) the value sent is \<open>-90\<close>.
\<close>

theorem advice_heading_degrees_counterexample:
  "\<not> (0 \<le> angleDeg (adviceTelemetry (INITIAL_CAR_STATE\<lparr>rotation := - (pi / 2)\<rparr>)
                (getEnvironment_parkingSpot 65) PLAYING [])
      \<and> angleDeg (adviceTelemetry (INITIAL_CAR_STATE\<lparr>rotation := - (pi / 2)\<rparr>)
                (getEnvironment_parkingSpot 65) PLAYING []) \<le> 359)"
  by (simp add: adviceTelemetry_def toFixed0_def)

text \<open>
  C7, amended. With \<open>v = rotation * (180 / \<pi>)\<close> the product the code formats, the
  heading degrees sent are the sign of \<open>v\<close> applied to \<open>\<bar>v\<bar>\<close> rounded half up: the
  integer nearest to \<open>v\<close>, at most one half away from it, and when \<open>v\<close> lies exactly
  halfway between two integers the one of larger magnitude (3 for 2.5, \<open>-3\<close> for
  \<open>-2.5\<close>). The value is not reduced modulo 360: it lies in 0..359 exactly when
  \<open>-0.5 < v < 359.5\<close>.
\<close>

theorem advice_heading_degrees:
  "angleDeg (adviceTelemetry carState parkingSpot status lastAction) =
      (if rotation carState * (180 / pi) < 0
       then - \<lfloor>\<bar>rotation carState * (180 / pi)\<bar> + 1 / 2\<rfloor>
       else \<lfloor>\<bar>rotation carState * (180 / pi)\<bar> + 1 / 2\<rfloor>)
   \<and> \<bar>real_of_int (angleDeg (adviceTelemetry carState parkingSpot status lastAction))
      - rotation carState * (180 / pi)\<bar> \<le> 1 / 2
   \<and> (\<bar>real_of_int (angleDeg (adviceTelemetry carState parkingSpot status lastAction))
      - rotation carState * (180 / pi)\<bar> = 1 / 2 \<longrightarrow>
        \<bar>rotation carState * (180 / pi)\<bar>
          < \<bar>real_of_int (angleDeg (adviceTelemetry carState parkingSpot status lastAction))\<bar>)
   \<and> ((0 \<le> angleDeg (adviceTelemetry carState parkingSpot status lastAction)
        \<and> angleDeg (adviceTelemetry carState parkingSpot status lastAction) \<le> 359)
       \<longleftrightarrow> (- (1 / 2) < rotation carState * (180 / pi)
            \<and> rotation carState * (180 / pi) < 359 + 1 / 2))"
proof -
  let ?v = "rotation carState * (180 / pi)"
  have d: "angleDeg (adviceTelemetry carState parkingSpot status lastAction) = toFixed0 ?v"
    by (simp add: adviceTelemetry_def)
  show ?thesis
    unfolding d
    using toFixed0_magnitude [of ?v] toFixed0_near [of ?v] toFixed0_tie [of ?v]
      toFixed0_range [of ?v]
    by blast
qed

text \<open>
  At the ties \<open>v = 2.5\<close> and \<open>v = -2.5\<close> the values sent are 3 and \<open>-3\<close>; after one
  full turn the value sent is 360.
\<close>

theorem advice_heading_degrees_witness:
  "angleDeg (adviceTelemetry (INITIAL_CAR_STATE\<lparr>rotation := pi / 72\<rparr>)
                (getEnvironment_parkingSpot 65) PLAYING []) = 3
   \<and> angleDeg (adviceTelemetry (INITIAL_CAR_STATE\<lparr>rotation := - (pi / 72)\<rparr>)
                (getEnvironment_parkingSpot 65) PLAYING []) = - 3
   \<and> angleDeg (adviceTelemetry (INITIAL_CAR_STATE\<lparr>rotation := 2 * pi\<rparr>)
                (getEnvironment_parkingSpot 65) PLAYING []) = 360"
proof -
  let ?up = "angleDeg (adviceTelemetry (INITIAL_CAR_STATE\<lparr>rotation := pi / 72\<rparr>)
                (getEnvironment_parkingSpot 65) PLAYING [])"
  let ?down = "angleDeg (adviceTelemetry (INITIAL_CAR_STATE\<lparr>rotation := - (pi / 72)\<rparr>)
                (getEnvironment_parkingSpot 65) PLAYING [])"
  let ?turn = "angleDeg (adviceTelemetry (INITIAL_CAR_STATE\<lparr>rotation := 2 * pi\<rparr>)
                (getEnvironment_parkingSpot 65) PLAYING [])"
  have vu: "rotation (INITIAL_CAR_STATE\<lparr>rotation := pi / 72\<rparr>) * (180 / pi) = 5 / 2" by simp
  have vd: "rotation (INITIAL_CAR_STATE\<lparr>rotation := - (pi / 72)\<rparr>) * (180 / pi) = - (5 / 2)"
    by simp
  have vt: "rotation (INITIAL_CAR_STATE\<lparr>rotation := 2 * pi\<rparr>) * (180 / pi) = 360" by simp
  note up = advice_heading_degrees [of "INITIAL_CAR_STATE\<lparr>rotation := pi / 72\<rparr>"
      "getEnvironment_parkingSpot 65" PLAYING "[]", unfolded vu]
  note down = advice_heading_degrees [of "INITIAL_CAR_STATE\<lparr>rotation := - (pi / 72)\<rparr>"
      "getEnvironment_parkingSpot 65" PLAYING "[]", unfolded vd]
  note turn = advice_heading_degrees [of "INITIAL_CAR_STATE\<lparr>rotation := 2 * pi\<rparr>"
      "getEnvironment_parkingSpot 65" PLAYING "[]", unfolded vt]
  have a: "?up = 3"
  proof -
    from up have near: "\<bar>real_of_int ?up - 5 / 2\<bar> \<le> 1 / 2"
      and tie: "\<bar>real_of_int ?up - 5 / 2\<bar> = 1 / 2 \<longrightarrow> \<bar>5 / 2 :: real\<bar> < \<bar>real_of_int ?up\<bar>"
      by blast+
    from near have "?up = 2 \<or> ?up = 3" by linarith
    moreover have "?up \<noteq> 2" using tie by auto
    ultimately show ?thesis by simp
  qed
  have b: "?down = - 3"
  proof -
    from down have near: "\<bar>real_of_int ?down - (- (5 / 2))\<bar> \<le> 1 / 2"
      and tie: "\<bar>real_of_int ?down - (- (5 / 2))\<bar> = 1 / 2 \<longrightarrow>
          \<bar>- (5 / 2) :: real\<bar> < \<bar>real_of_int ?down\<bar>"
      by blast+
    from near have "?down = - 2 \<or> ?down = - 3" by linarith
    moreover have "?down \<noteq> - 2" using tie by auto
    ultimately show ?thesis by simp
  qed
  have c: "?turn = 360"
  proof -
    from turn have "\<bar>real_of_int ?turn - 360\<bar> \<le> 1 / 2" by blast
    then show ?thesis by linarith
  qed
  show ?thesis using a b c by simp
qed

section \<open>Properties of the steering mapper\<close>

text \<open>
  Whatever is emitted is a clamped visual rotation, a value between \<open>-540\<close> and 540
  degrees, divided by 540 and multiplied by the steering lock. No handler changes the
  lock.
\<close>

lemma clamp_scaled:
  assumes "0 < m"
  shows "\<bar>(max (- MAX_VISUAL_DEG) (min MAX_VISUAL_DEG v) / MAX_VISUAL_DEG) * m\<bar> \<le> m"
proof -
  have pos: "0 < MAX_VISUAL_DEG" by (simp add: MAX_VISUAL_DEG_def MAX_TURNS_def)
  have "\<bar>max (- MAX_VISUAL_DEG) (min MAX_VISUAL_DEG v)\<bar> \<le> MAX_VISUAL_DEG"
    using pos by (simp add: max_def min_def abs_if)
  then have "\<bar>max (- MAX_VISUAL_DEG) (min MAX_VISUAL_DEG v) / MAX_VISUAL_DEG\<bar> \<le> 1"
    using pos by (simp add: abs_divide)
  then have "\<bar>max (- MAX_VISUAL_DEG) (min MAX_VISUAL_DEG v) / MAX_VISUAL_DEG\<bar> * m \<le> 1 * m"
    using assms by (intro mult_right_mono) simp_all
  then show ?thesis using assms by (simp add: abs_mult)
qed

lemma dispatch_maxAngle: "maxAngle (fst (dispatch w ev)) = maxAngle w"
  by (cases ev) (simp_all add: handleStart_def handleMove_def handleEnd_def Let_def split: option.splits)

lemma dispatch_emits:
  assumes "snd (dispatch w ev) = Some a"
  shows "\<exists>v. a = (max (- MAX_VISUAL_DEG) (min MAX_VISUAL_DEG v) / MAX_VISUAL_DEG) * maxAngle w"
proof (cases ev)
  case (PointerMove clientX clientY)
  with assms show ?thesis
    by (auto simp: handleMove_def Let_def split: option.splits if_splits)
next
  case (QuickSet t)
  with assms show ?thesis
    by (auto simp: setTurns_def Let_def)
qed (use assms in simp_all)

lemma dispatch_bound:
  assumes "0 < maxAngle w" "snd (dispatch w ev) = Some a"
  shows "\<bar>a\<bar> \<le> maxAngle w"
  using dispatch_emits [OF assms(2)] clamp_scaled [OF assms(1)] by blast

lemma handleSteeringChange_maxAngle: "maxAngle (handleSteeringChange playing w out) = maxAngle w"
  by (simp add: handleSteeringChange_def split: option.splits)

lemma emitted_bound:
  assumes "0 < maxAngle w"
  shows "\<forall>a \<in> set (emitted playing w evs). \<bar>a\<bar> \<le> maxAngle w"
  using assms
proof (induction evs arbitrary: w)
  case Nil
  then show ?case by simp
next
  case (Cons ev evs)
  obtain w' out where d: "dispatch w ev = (w', out)" by (cases "dispatch w ev")
  have m: "maxAngle w' = maxAngle w" using dispatch_maxAngle [of w ev] d by simp
  have rest: "\<forall>a \<in> set (emitted playing (handleSteeringChange playing w' out) evs). \<bar>a\<bar> \<le> maxAngle w"
    using Cons.IH [of "handleSteeringChange playing w' out"] Cons.prems m
    by (simp add: handleSteeringChange_maxAngle)
  show ?case
  proof (cases out)
    case None
    with d rest show ?thesis by simp
  next
    case (Some a)
    have "\<bar>a\<bar> \<le> maxAngle w" using dispatch_bound [of w ev a] Cons.prems d Some by simp
    with d rest Some show ?thesis by simp
  qed
qed

text \<open>
  C4. With a positive steering lock \<open>maxAngle\<close>, every angle the component passes to
  \<open>onChange\<close> is at most \<open>maxAngle\<close> in magnitude, over any finite sequence of presses,
  drags, releases and quick-set actions, from any starting state and whether or not the
  parent stores the emitted angles.
\<close>

theorem steering_output_bounded:
  assumes "0 < maxAngle w"
  shows "\<forall>a \<in> set (emitted playing w evs). \<bar>a\<bar> \<le> maxAngle w"
  using assms by (rule emitted_bound)

text \<open>
  The gesture of \<open>demoGesture\<close>, evaluated event by event: each quarter turn of the
  pointer adds 90 visual degrees (the third one through the wrap-around of the pointer
  angle from 180 to \<open>-90\<close>); the seventh would reach 630 and is held at 540, the lock
  \<open>\<pi>/4\<close>; the quick action for full left emits \<open>-\<pi>/4\<close>.
\<close>

lemma demo_pointerAngle:
  "pointerAngle \<lparr>rect_left = 0, rect_top = 0, rect_width = 100, rect_height = 100\<rparr> 100 50 = 0"
  "pointerAngle \<lparr>rect_left = 0, rect_top = 0, rect_width = 100, rect_height = 100\<rparr> 50 100 = 90"
  "pointerAngle \<lparr>rect_left = 0, rect_top = 0, rect_width = 100, rect_height = 100\<rparr> 0 50 = 180"
  "pointerAngle \<lparr>rect_left = 0, rect_top = 0, rect_width = 100, rect_height = 100\<rparr> 50 0 = - 90"
  by (simp_all add: pointerAngle_def atan2_def)

lemmas wheel_eval = handleStart_def handleMove_def handleEnd_def setTurns_def
  handleSteeringChange_def currentVisualRotation_def MAX_VISUAL_DEG_def MAX_TURNS_def
  MAX_STEERING_ANGLE_def demo_pointerAngle Let_def

lemma demo_press:
  "emitted True demoWheel (PointerDown 100 50 # evs) =
     emitted True \<lparr>angle = 0, maxAngle = pi / 4, isDragging = True, wheelRef = Some \<lparr>rect_left = 0, rect_top = 0, rect_width = 100, rect_height = 100\<rparr>, startAngleRef = 0\<rparr> evs"
  by (simp add: demoWheel_def wheel_eval)

lemma demo_drag1:
  "emitted True \<lparr>angle = 0, maxAngle = pi / 4, isDragging = True, wheelRef = Some \<lparr>rect_left = 0, rect_top = 0, rect_width = 100, rect_height = 100\<rparr>, startAngleRef = 0\<rparr>
     (PointerMove 50 100 # evs) =
   pi / 24 # emitted True \<lparr>angle = pi / 24, maxAngle = pi / 4, isDragging = True, wheelRef = Some \<lparr>rect_left = 0, rect_top = 0, rect_width = 100, rect_height = 100\<rparr>, startAngleRef = 90\<rparr> evs"
  by (simp add: wheel_eval)

lemma demo_drag2:
  "emitted True \<lparr>angle = pi / 24, maxAngle = pi / 4, isDragging = True, wheelRef = Some \<lparr>rect_left = 0, rect_top = 0, rect_width = 100, rect_height = 100\<rparr>, startAngleRef = 90\<rparr>
     (PointerMove 0 50 # evs) =
   pi / 12 # emitted True \<lparr>angle = pi / 12, maxAngle = pi / 4, isDragging = True, wheelRef = Some \<lparr>rect_left = 0, rect_top = 0, rect_width = 100, rect_height = 100\<rparr>, startAngleRef = 180\<rparr> evs"
  by (simp add: wheel_eval)

lemma demo_drag3:
  "emitted True \<lparr>angle = pi / 12, maxAngle = pi / 4, isDragging = True, wheelRef = Some \<lparr>rect_left = 0, rect_top = 0, rect_width = 100, rect_height = 100\<rparr>, startAngleRef = 180\<rparr>
     (PointerMove 50 0 # evs) =
   pi / 8 # emitted True \<lparr>angle = pi / 8, maxAngle = pi / 4, isDragging = True, wheelRef = Some \<lparr>rect_left = 0, rect_top = 0, rect_width = 100, rect_height = 100\<rparr>, startAngleRef = - 90\<rparr> evs"
  by (simp add: wheel_eval)

lemma demo_drag4:
  "emitted True \<lparr>angle = pi / 8, maxAngle = pi / 4, isDragging = True, wheelRef = Some \<lparr>rect_left = 0, rect_top = 0, rect_width = 100, rect_height = 100\<rparr>, startAngleRef = - 90\<rparr>
     (PointerMove 100 50 # evs) =
   pi / 6 # emitted True \<lparr>angle = pi / 6, maxAngle = pi / 4, isDragging = True, wheelRef = Some \<lparr>rect_left = 0, rect_top = 0, rect_width = 100, rect_height = 100\<rparr>, startAngleRef = 0\<rparr> evs"
  by (simp add: wheel_eval)

lemma demo_drag5:
  "emitted True \<lparr>angle = pi / 6, maxAngle = pi / 4, isDragging = True, wheelRef = Some \<lparr>rect_left = 0, rect_top = 0, rect_width = 100, rect_height = 100\<rparr>, startAngleRef = 0\<rparr>
     (PointerMove 50 100 # evs) =
   (5 * pi / 24) # emitted True \<lparr>angle = 5 * pi / 24, maxAngle = pi / 4, isDragging = True, wheelRef = Some \<lparr>rect_left = 0, rect_top = 0, rect_width = 100, rect_height = 100\<rparr>, startAngleRef = 90\<rparr> evs"
  by (simp add: wheel_eval)

lemma demo_drag6:
  "emitted True \<lparr>angle = 5 * pi / 24, maxAngle = pi / 4, isDragging = True, wheelRef = Some \<lparr>rect_left = 0, rect_top = 0, rect_width = 100, rect_height = 100\<rparr>, startAngleRef = 90\<rparr>
     (PointerMove 0 50 # evs) =
   pi / 4 # emitted True \<lparr>angle = pi / 4, maxAngle = pi / 4, isDragging = True, wheelRef = Some \<lparr>rect_left = 0, rect_top = 0, rect_width = 100, rect_height = 100\<rparr>, startAngleRef = 180\<rparr> evs"
  by (simp add: wheel_eval)

lemma demo_drag7:
  "emitted True \<lparr>angle = pi / 4, maxAngle = pi / 4, isDragging = True, wheelRef = Some \<lparr>rect_left = 0, rect_top = 0, rect_width = 100, rect_height = 100\<rparr>, startAngleRef = 180\<rparr>
     (PointerMove 50 0 # evs) =
   pi / 4 # emitted True \<lparr>angle = pi / 4, maxAngle = pi / 4, isDragging = True, wheelRef = Some \<lparr>rect_left = 0, rect_top = 0, rect_width = 100, rect_height = 100\<rparr>, startAngleRef = - 90\<rparr> evs"
  by (simp add: wheel_eval)

lemma demo_release:
  "emitted True \<lparr>angle = pi / 4, maxAngle = pi / 4, isDragging = True, wheelRef = Some \<lparr>rect_left = 0, rect_top = 0, rect_width = 100, rect_height = 100\<rparr>, startAngleRef = - 90\<rparr>
     (PointerUp # QuickSet (- MAX_TURNS) # evs) =
   - (pi / 4) # emitted True \<lparr>angle = - (pi / 4), maxAngle = pi / 4, isDragging = False, wheelRef = Some \<lparr>rect_left = 0, rect_top = 0, rect_width = 100, rect_height = 100\<rparr>, startAngleRef = - 90\<rparr> evs"
  by (simp add: wheel_eval)

lemma demo_emitted:
  "emitted True demoWheel demoGesture =
     [pi / 24, pi / 12, pi / 8, pi / 6, 5 * pi / 24, pi / 4, pi / 4, - (pi / 4)]"
  unfolding demoGesture_def demo_press demo_drag1 demo_drag2 demo_drag3 demo_drag4
    demo_drag5 demo_drag6 demo_drag7 demo_release
  by simp

theorem steering_output_bounded_witness:
  "0 < maxAngle demoWheel
   \<and> emitted True demoWheel demoGesture =
       [pi / 24, pi / 12, pi / 8, pi / 6, 5 * pi / 24, pi / 4, pi / 4, - (pi / 4)]
   \<and> list_all (\<lambda>a. \<bar>a\<bar> \<le> maxAngle demoWheel) (emitted True demoWheel demoGesture)"
proof -
  have lock: "0 < maxAngle demoWheel"
    by (simp add: demoWheel_def MAX_STEERING_ANGLE_def)
  from steering_output_bounded [OF lock, of True demoGesture]
  have "list_all (\<lambda>a. \<bar>a\<bar> \<le> maxAngle demoWheel) (emitted True demoWheel demoGesture)"
    by (simp only: list_all_iff)
  with lock demo_emitted show ?thesis by simp
qed

end
